theory Spec2Isabelle
  imports Main "HOL-Library.Char_ord" "HOL-Library.List_Lexorder"
begin

section \<open>PubMed data collection: XML records to a CSV table\<close>

text \<open>
  A shallow embedding of \<^verbatim>\<open>code/1_Data_Collection.py\<close>. Python strings are byte
  lists in UTF-8 (whose lexicographic order is the order of the code points), \<^verbatim>\<open>None\<close>
  is \<open>None\<close> of an option type, an exception is the left summand of a sum, and the files
  the script reads and writes are fields of explicit environment and state records.
\<close>

subsection \<open>Exceptions\<close>

datatype exn =
    AttributeError string
  | TypeError string
  | ParseError string
  | OSError string
  | ValueError string
  | LookupError string

text \<open>\<^verbatim>\<open>str(e)\<close>, as the f-strings of the script print an exception.\<close>

fun str_exn :: "exn \<Rightarrow> string" where
  "str_exn (AttributeError m) = m"
| "str_exn (TypeError m) = m"
| "str_exn (ParseError m) = m"
| "str_exn (OSError m) = m"
| "str_exn (ValueError m) = m"
| "str_exn (LookupError m) = m"

definition exn_bind :: "exn + 'a \<Rightarrow> ('a \<Rightarrow> exn + 'b) \<Rightarrow> exn + 'b" where
  "exn_bind m f = (case m of Inl e \<Rightarrow> Inl e | Inr v \<Rightarrow> f v)"

text \<open>\<^verbatim>\<open>try: body  except AttributeError: handler\<close>: only that class is caught.\<close>

definition except_AttributeError :: "exn + 'a \<Rightarrow> exn + 'a \<Rightarrow> exn + 'a" where
  "except_AttributeError body handler =
     (case body of Inl (AttributeError m) \<Rightarrow> handler | Inl e \<Rightarrow> Inl e | Inr v \<Rightarrow> Inr v)"

subsection \<open>Python strings\<close>

text \<open>How an f-string renders a value that is a string or \<^verbatim>\<open>None\<close>.\<close>

fun py_str :: "string option \<Rightarrow> string" where
  "py_str None = ''None''"
| "py_str (Some s) = s"

fun startswith :: "string \<Rightarrow> string \<Rightarrow> bool" where
  "startswith s [] = True"
| "startswith [] (p # ps) = False"
| "startswith (c # s) (p # ps) = (c = p \<and> startswith s ps)"

definition endswith :: "string \<Rightarrow> string \<Rightarrow> bool" where
  "endswith s suf = startswith (rev s) (rev suf)"

definition digit_char :: "nat \<Rightarrow> char" where
  "digit_char d = ''0123456789'' ! (d mod 10)"

fun str_nat :: "nat \<Rightarrow> string" where
  "str_nat n = (if n < 10 then [digit_char n] else str_nat (n div 10) @ [digit_char (n mod 10)])"

declare str_nat.simps [simp del]

text \<open>
  The format specification \<^verbatim>\<open>04d\<close> of an integer: zero fill to width four, the sign
  counted in the width and put before the zeros.
\<close>

definition zfill :: "nat \<Rightarrow> string \<Rightarrow> string" where
  "zfill w s = replicate (w - length s) CHR ''0'' @ s"

definition format_04d :: "int \<Rightarrow> string" where
  "format_04d n =
     (if n < 0 then CHR ''-'' # zfill 3 (str_nat (nat (- n))) else zfill 4 (str_nat (nat n)))"

text \<open>
  \<^verbatim>\<open>sep.join(items)\<close> on a list of strings, and on a list whose items may be
  \<^verbatim>\<open>None\<close>: the first item that is not a string raises \<^verbatim>\<open>TypeError\<close>.
\<close>

fun join :: "string \<Rightarrow> string list \<Rightarrow> string" where
  "join sep [] = []"
| "join sep [x] = x"
| "join sep (x # y # ys) = x @ sep @ join sep (y # ys)"

fun first_none :: "'a option list \<Rightarrow> nat option" where
  "first_none [] = None"
| "first_none (None # xs) = Some 0"
| "first_none (Some x # xs) = map_option Suc (first_none xs)"

definition str_join :: "string \<Rightarrow> string option list \<Rightarrow> exn + string" where
  "str_join sep items =
     (case first_none items of
        Some i \<Rightarrow>
          Inl (TypeError (''sequence item '' @ str_nat i @ '': expected str instance, NoneType found''))
      | None \<Rightarrow> Inr (join sep (List.map_filter id items)))"

text \<open>
  \<^verbatim>\<open>os.path.join(a, b)\<close> on POSIX: an absolute second part replaces the first, and the
  separator is added unless the first part is empty or ends with it.
\<close>

definition path_join :: "string \<Rightarrow> string \<Rightarrow> string" where
  "path_join a b =
     (if startswith b ''/'' then b
      else if a = [] \<or> endswith a ''/'' then a @ b
      else a @ ''/'' @ b)"

subsection \<open>Element trees\<close>

text \<open>
  An element of \<^verbatim>\<open>xml.etree.ElementTree\<close>: its tag, its text (\<^verbatim>\<open>None\<close> when no
  character data precedes the first child) and its children in document order.
\<close>

datatype element = Element (elem_tag: string) (elem_text: "string option") (elem_children: "element list")

text \<open>\<^verbatim>\<open>e.findall(tag)\<close> and \<^verbatim>\<open>e.find(tag)\<close>: the children with that tag, and the first.\<close>

definition findall :: "element \<Rightarrow> string \<Rightarrow> element list" where
  "findall e t = filter (\<lambda>c. elem_tag c = t) (elem_children e)"

definition find_child :: "element \<Rightarrow> string \<Rightarrow> element option" where
  "find_child e t = (case findall e t of [] \<Rightarrow> None | c # cs \<Rightarrow> Some c)"

text \<open>The proper descendants in document order, as \<^verbatim>\<open>//\<close> of a path walks them.\<close>

fun descendants :: "element \<Rightarrow> element list" where
  "descendants (Element t x cs) = concat (map (\<lambda>c. c # descendants c) cs)"

text \<open>\<^verbatim>\<open>e.find('.//T')\<close> and \<^verbatim>\<open>e.find('.//T/U')\<close>.\<close>

definition find_descendant :: "element \<Rightarrow> string \<Rightarrow> element option" where
  "find_descendant e t =
     (case filter (\<lambda>c. elem_tag c = t) (descendants e) of [] \<Rightarrow> None | c # cs \<Rightarrow> Some c)"

definition find_descendant_child :: "element \<Rightarrow> string \<Rightarrow> string \<Rightarrow> element option" where
  "find_descendant_child e t u =
     (case concat (map (\<lambda>a. findall a u) (filter (\<lambda>c. elem_tag c = t) (descendants e))) of
        [] \<Rightarrow> None
      | c # cs \<Rightarrow> Some c)"

text \<open>
  Attribute access on a value that may be \<^verbatim>\<open>None\<close>: \<^verbatim>\<open>x.find(tag)\<close> and
  \<^verbatim>\<open>x.text\<close> raise \<^verbatim>\<open>AttributeError\<close> on \<^verbatim>\<open>None\<close>.
\<close>

definition no_attribute :: "string \<Rightarrow> exn" where
  "no_attribute a =
     AttributeError ([CHR 0x27] @ ''NoneType'' @ [CHR 0x27] @ '' object has no attribute ''
                     @ [CHR 0x27] @ a @ [CHR 0x27])"

definition find_attr :: "element option \<Rightarrow> string \<Rightarrow> exn + element option" where
  "find_attr x t =
     (case x of
        None \<Rightarrow> Inl (no_attribute ''find'')
      | Some e \<Rightarrow> Inr (find_child e t))"

definition text_attr :: "element option \<Rightarrow> exn + string option" where
  "text_attr x =
     (case x of
        None \<Rightarrow> Inl (no_attribute ''text'')
      | Some e \<Rightarrow> Inr (elem_text e))"

subsection \<open>Field extraction\<close>

definition extract_text :: "element option \<Rightarrow> string \<Rightarrow> exn + string option" where
  "extract_text element t =
     except_AttributeError
       (exn_bind (find_attr element t) text_attr)
       (Inr None)"

definition extract_date :: "element option \<Rightarrow> exn + string option" where
  "extract_date pub_date =
     except_AttributeError
       (exn_bind (find_attr pub_date ''Year'') (\<lambda>y.
        exn_bind (text_attr y) (\<lambda>year.
        exn_bind (find_attr pub_date ''Month'') (\<lambda>m.
        exn_bind (text_attr m) (\<lambda>month.
        Inr (Some (py_str year @ ''-'' @ py_str month)))))))
       (Inr None)"

text \<open>
  The comprehension of \<^verbatim>\<open>parse_mesh_headings\<close> keeps, for each heading that has a
  \<^verbatim>\<open>DescriptorName\<close> child, the text of the first such child, which may be \<^verbatim>\<open>None\<close>.
\<close>

definition parse_mesh_headings :: "element option \<Rightarrow> exn + string option" where
  "parse_mesh_headings mesh_list =
     (case mesh_list of
        None \<Rightarrow> Inr None
      | Some ml \<Rightarrow>
          (let headings =
                 List.map_filter (\<lambda>mh. map_option elem_text (find_child mh ''DescriptorName''))
                   (findall ml ''MeshHeading'')
           in if headings \<noteq> [] then exn_bind (str_join ''; '' headings) (\<lambda>s. Inr (Some s))
              else Inr None))"

definition parse_keywords :: "element option \<Rightarrow> exn + string option" where
  "parse_keywords keyword_list =
     (case keyword_list of
        None \<Rightarrow> Inr None
      | Some kl \<Rightarrow>
          (let keywords =
                 map elem_text (filter (\<lambda>kw. elem_text kw \<noteq> None) (findall kl ''Keyword''))
           in if keywords \<noteq> [] then exn_bind (str_join ''; '' keywords) (\<lambda>s. Inr (Some s))
              else Inr None))"

subsection \<open>Records, environment and file state\<close>

text \<open>The dictionary that \<^verbatim>\<open>parse_xml\<close> appends for one article.\<close>

record pubmed_record =
  Date :: "string option"
  Title :: "string option"
  Abstract :: "string option"
  MeshHeading :: "string option"
  Keywords :: "string option"

text \<open>
  What the script does not change: \<^verbatim>\<open>os.listdir\<close> of a directory; what
  \<^verbatim>\<open>ET.parse\<close> does with the file at a path (it returns the root element, or raises:
  \<^verbatim>\<open>ParseError\<close> on XML that is not well formed, \<^verbatim>\<open>ValueError\<close> or
  \<^verbatim>\<open>LookupError\<close> on a declared encoding it does not support, an \<^verbatim>\<open>OSError\<close> on
  a file it cannot open); and what opening the file at a path for writing raises, if
  anything (a missing directory, a missing permission).
\<close>

record env =
  listdir :: "string \<Rightarrow> exn + string list"
  et_parse :: "string \<Rightarrow> exn + element"
  write_error :: "string \<Rightarrow> exn option"

text \<open>
  What the script writes: CSV tables by path (a table is its list of rows, a row its
  list of cells), plain text files by path (a file is its list of written lines), and
  the lines printed on the console. A path outside the domain of \<open>tables\<close> is one for
  which \<^verbatim>\<open>os.path.isfile\<close> is false. The model takes the output table and the error
  log to be distinct from the XML inputs; a write that fails fails when the file is
  opened, before anything is written.
\<close>

record fs =
  tables :: "string \<rightharpoonup> string list list"
  texts :: "string \<rightharpoonup> string list"
  console :: "string list"

definition print :: "string \<Rightarrow> fs \<Rightarrow> fs" where
  "print line s = s\<lparr>console := console s @ [line]\<rparr>"

definition isfile :: "fs \<Rightarrow> string \<Rightarrow> bool" where
  "isfile s path = (tables s path \<noteq> None)"

subsection \<open>Record extractor\<close>

text \<open>The body of the loop over the articles: any exception leaves the loop.\<close>

definition article_record :: "element \<Rightarrow> exn + pubmed_record" where
  "article_record article =
     (let date_element = find_descendant article ''PubDate'';
          title_element = find_descendant article ''ArticleTitle'';
          abstract_element = find_descendant_child article ''Abstract'' ''AbstractText'';
          mesh_list_element = find_descendant article ''MeshHeadingList'';
          keyword_list_element = find_descendant article ''KeywordList''
      in exn_bind (extract_date date_element) (\<lambda>date.
         let title = (case title_element of Some e \<Rightarrow> elem_text e | None \<Rightarrow> None);
             abstract = (case abstract_element of Some e \<Rightarrow> elem_text e | None \<Rightarrow> None)
         in exn_bind (parse_mesh_headings mesh_list_element) (\<lambda>mesh_headings.
            exn_bind (parse_keywords keyword_list_element) (\<lambda>keywords.
            Inr \<lparr>Date = date, Title = title, Abstract = abstract,
                 MeshHeading = mesh_headings, Keywords = keywords\<rparr>))))"

fun article_loop :: "element list \<Rightarrow> pubmed_record list \<Rightarrow> exn + pubmed_record list" where
  "article_loop [] records = Inr records"
| "article_loop (article # rest) records =
     (case article_record article of
        Inl e \<Rightarrow> Inl e
      | Inr r \<Rightarrow> article_loop rest (records @ [r]))"

definition parse_xml :: "env \<Rightarrow> string \<Rightarrow> fs \<Rightarrow> (exn + pubmed_record list) \<times> fs" where
  "parse_xml ev file_path s =
     (case et_parse ev file_path of
        Inl (ParseError m) \<Rightarrow> (Inr [], print (''Error parsing '' @ file_path @ '': '' @ m) s)
      | Inl e \<Rightarrow> (Inl e, s)
      | Inr root \<Rightarrow> (article_loop (findall root ''PubmedArticle'') [], s))"

subsection \<open>Incremental writer\<close>

text \<open>
  \<^verbatim>\<open>pd.DataFrame(records)\<close> takes its columns from the keys of the dictionaries, in
  their order; an empty list gives a frame without columns. \<^verbatim>\<open>to_csv\<close> with
  \<^verbatim>\<open>index=False\<close> writes the header row when asked, then one row per record with a
  missing value as the empty cell; mode \<^verbatim>\<open>w\<close> replaces the file and mode \<^verbatim>\<open>a\<close>
  extends it. When the file cannot be opened for writing the exception leaves
  \<^verbatim>\<open>to_csv\<close> and \<^verbatim>\<open>save_records_to_csv\<close>, whose final message is not printed.
\<close>

record dataframe =
  columns :: "string list"
  frame_rows :: "string option list list"

definition DataFrame :: "pubmed_record list \<Rightarrow> dataframe" where
  "DataFrame records =
     \<lparr>columns = (if records = [] then []
                 else [''Date'', ''Title'', ''Abstract'', ''MeshHeading'', ''Keywords'']),
      frame_rows = map (\<lambda>r. [Date r, Title r, Abstract r, MeshHeading r, Keywords r]) records\<rparr>"

definition csv_cell :: "string option \<Rightarrow> string" where
  "csv_cell v = (case v of None \<Rightarrow> [] | Some x \<Rightarrow> x)"

definition csv_rows :: "dataframe \<Rightarrow> bool \<Rightarrow> string list list" where
  "csv_rows df header = (if header then [columns df] else []) @ map (map csv_cell) (frame_rows df)"

definition to_csv :: "env \<Rightarrow> dataframe \<Rightarrow> string \<Rightarrow> bool \<Rightarrow> bool \<Rightarrow> fs \<Rightarrow> exn + fs" where
  "to_csv ev df path append_mode header s =
     (case write_error ev path of
        Some e \<Rightarrow> Inl e
      | None \<Rightarrow>
          (let old = (case tables s path of
                        Some rows \<Rightarrow> if append_mode then rows else []
                      | None \<Rightarrow> [])
           in Inr (s\<lparr>tables := (tables s)(path \<mapsto> old @ csv_rows df header)\<rparr>)))"

definition save_records_to_csv :: "env \<Rightarrow> pubmed_record list \<Rightarrow> string \<Rightarrow> fs \<Rightarrow> exn + fs" where
  "save_records_to_csv ev records output_file s =
     (let df = DataFrame records
      in exn_bind
           (if \<not> isfile s output_file then to_csv ev df output_file False True s
            else to_csv ev df output_file True False s)
           (\<lambda>s1. Inr (print (''Data successfully saved to '' @ output_file) s1)))"

subsection \<open>Directory walker and error log\<close>

text \<open>
  The f-string \<^verbatim>\<open>f'pubmed24n{start_number:04d}'\<close>; formatting \<^verbatim>\<open>None\<close> with
  \<^verbatim>\<open>04d\<close> raises \<^verbatim>\<open>TypeError\<close>.
\<close>

definition marker_prefix :: "int option \<Rightarrow> exn + string" where
  "marker_prefix start_number =
     (case start_number of
        None \<Rightarrow> Inl (TypeError ''unsupported format string passed to NoneType.__format__'')
      | Some n \<Rightarrow> Inr (''pubmed24n'' @ format_04d n))"

text \<open>Truthiness of the optional integer: \<^verbatim>\<open>None\<close> and \<^verbatim>\<open>0\<close> are false.\<close>

definition truthy :: "int option \<Rightarrow> bool" where
  "truthy start_number = (case start_number of None \<Rightarrow> False | Some n \<Rightarrow> n \<noteq> 0)"

text \<open>
  One file of the walker. The \<^verbatim>\<open>try\<close> holds both the call of \<open>parse_xml\<close> and,
  if there are records, the call of \<open>save_records_to_csv\<close>; an exception of either
  reaches the handler, which prints the message and appends it to the error log.
\<close>

definition process_file ::
  "env \<Rightarrow> string \<Rightarrow> string \<Rightarrow> string \<Rightarrow> string list \<Rightarrow> fs \<Rightarrow> string list \<times> fs" where
  "process_file ev directory_path output_csv_file filename error_log s =
     (let file_path = path_join directory_path filename;
          s1 = print (''Processing file: '' @ file_path) s
      in case parse_xml ev file_path s1 of
           (result, s2) \<Rightarrow>
             (case exn_bind result (\<lambda>records.
                     if records \<noteq> [] then save_records_to_csv ev records output_csv_file s2
                     else Inr s2) of
                Inr s3 \<Rightarrow> (error_log, s3)
              | Inl e \<Rightarrow>
                  (let error_message = ''Error processing '' @ file_path @ '': '' @ str_exn e
                   in (error_log @ [error_message], print error_message s2))))"

text \<open>
  The loop over the sorted names, with the flag \<^verbatim>\<open>start_processing\<close> and the error
  log as loop variables. The prefix is only formatted while the flag is false.
\<close>

fun walk ::
  "env \<Rightarrow> string \<Rightarrow> string \<Rightarrow> int option \<Rightarrow> string list \<Rightarrow> bool \<Rightarrow> string list \<Rightarrow> fs
     \<Rightarrow> exn + string list \<times> fs" where
  "walk ev directory_path output_csv_file start_number [] start_processing error_log s =
     Inr (error_log, s)"
| "walk ev directory_path output_csv_file start_number (filename # rest) start_processing error_log s =
     (if endswith filename ''.xml'' then
        exn_bind
          (if \<not> start_processing
           then exn_bind (marker_prefix start_number) (\<lambda>p. Inr (startswith filename p))
           else Inr False)
          (\<lambda>hit.
             let start_processing' = (if hit then True else start_processing)
             in if start_processing'
                then (case process_file ev directory_path output_csv_file filename error_log s of
                        (error_log', s') \<Rightarrow>
                          walk ev directory_path output_csv_file start_number rest
                            start_processing' error_log' s')
                else walk ev directory_path output_csv_file start_number rest
                       start_processing' error_log s)
      else walk ev directory_path output_csv_file start_number rest start_processing error_log s)"

text \<open>
  After the loop: the error log is written, replacing the file, only if it has entries.
  No handler surrounds this write: an exception of \<^verbatim>\<open>open\<close> leaves
  \<^verbatim>\<open>process_directory\<close>.
\<close>

definition write_error_log :: "env \<Rightarrow> string \<Rightarrow> string list \<Rightarrow> fs \<Rightarrow> exn + fs" where
  "write_error_log ev directory_path error_log s =
     (if error_log \<noteq> [] then
        (let error_log_file = path_join directory_path ''error_log.txt''
         in case write_error ev error_log_file of
              Some e \<Rightarrow> Inl e
            | None \<Rightarrow>
                Inr (print (''Error log saved to '' @ error_log_file)
                       (s\<lparr>texts := (texts s)(error_log_file \<mapsto> error_log)\<rparr>)))
      else Inr s)"

definition process_directory :: "env \<Rightarrow> string \<Rightarrow> string \<Rightarrow> int option \<Rightarrow> fs \<Rightarrow> exn + fs" where
  "process_directory ev directory_path output_csv_file start_number s =
     (let start_processing = (if truthy start_number then False else True)
      in exn_bind (listdir ev directory_path) (\<lambda>names.
         exn_bind (walk ev directory_path output_csv_file start_number (sort names)
                     start_processing [] s) (\<lambda>(error_log, s').
         write_error_log ev directory_path error_log s')))"

subsection \<open>Specification-level notions\<close>

text \<open>
  The parser never produces an empty text: an element without character data has the
  text \<^verbatim>\<open>None\<close>. This is the invariant of the trees \<^verbatim>\<open>ET.parse\<close> returns.
\<close>

fun no_empty_text :: "element \<Rightarrow> bool" where
  "no_empty_text (Element t x cs) = (x \<noteq> Some [] \<and> list_all no_empty_text cs)"

text \<open>
  The Keywords field in the words of the specification: the texts of the keywords, the
  empty ones left out, joined in document order with the separator; absent when the
  list is missing or no text is left.
\<close>

definition text_or_empty :: "element \<Rightarrow> string" where
  "text_or_empty e = (case elem_text e of None \<Rightarrow> [] | Some t \<Rightarrow> t)"

fun spec_join :: "string \<Rightarrow> string list \<Rightarrow> string" where
  "spec_join sep [] = []"
| "spec_join sep (x # xs) = x @ concat (map (\<lambda>y. sep @ y) xs)"

definition spec_keywords :: "element option \<Rightarrow> string option" where
  "spec_keywords keyword_list =
     (case keyword_list of
        None \<Rightarrow> None
      | Some kl \<Rightarrow>
          (let nonempty = filter (\<lambda>t. t \<noteq> []) (map text_or_empty (findall kl ''Keyword''))
           in if nonempty = [] then None else Some (spec_join ''; '' nonempty)))"

text \<open>The header row and the data row of a record, in the fixed column order.\<close>

definition header_row :: "string list" where
  "header_row = [''Date'', ''Title'', ''Abstract'', ''MeshHeading'', ''Keywords'']"

definition data_row :: "pubmed_record \<Rightarrow> string list" where
  "data_row r = map csv_cell [Date r, Title r, Abstract r, MeshHeading r, Keywords r]"

text \<open>
  The files the walker retains, in the words of the specification: the sorted names
  with the XML extension, from the first one that starts with the prefix of the marker
  when a marker counts as given.
\<close>

definition xml_names :: "string list \<Rightarrow> string list" where
  "xml_names names = filter (\<lambda>f. endswith f ''.xml'') (sort names)"

definition retained :: "int option \<Rightarrow> string list \<Rightarrow> string list" where
  "retained start_number names =
     (case start_number of
        None \<Rightarrow> xml_names names
      | Some n \<Rightarrow>
          if n = 0 then xml_names names
          else dropWhile (\<lambda>f. \<not> startswith f (''pubmed24n'' @ format_04d n)) (xml_names names))"

text \<open>Processing a list of retained files in order, each through \<open>process_file\<close>.\<close>

fun process_files ::
  "env \<Rightarrow> string \<Rightarrow> string \<Rightarrow> string list \<Rightarrow> string list \<Rightarrow> fs \<Rightarrow> string list \<times> fs" where
  "process_files ev directory_path output_csv_file [] error_log s = (error_log, s)"
| "process_files ev directory_path output_csv_file (filename # rest) error_log s =
     (case process_file ev directory_path output_csv_file filename error_log s of
        (error_log', s') \<Rightarrow> process_files ev directory_path output_csv_file rest error_log' s')"

text \<open>
  The error entries of a list of files: one line, of the form the walker writes, for
  each file on which \<open>parse_xml\<close> raises, and for each file that yields records
  while the output table cannot be opened for writing.
\<close>

definition error_entry :: "string \<Rightarrow> string \<Rightarrow> string" where
  "error_entry path message = ''Error processing '' @ path @ '': '' @ message"

definition file_failure :: "env \<Rightarrow> string \<Rightarrow> string \<Rightarrow> fs \<Rightarrow> exn option" where
  "file_failure ev file_path output_csv_file s =
     (case fst (parse_xml ev file_path s) of
        Inl e \<Rightarrow> Some e
      | Inr records \<Rightarrow> if records \<noteq> [] then write_error ev output_csv_file else None)"

definition error_entries :: "env \<Rightarrow> string \<Rightarrow> string \<Rightarrow> fs \<Rightarrow> string list \<Rightarrow> string list" where
  "error_entries ev directory_path output_csv_file s files =
     concat (map (\<lambda>f. case file_failure ev (path_join directory_path f) output_csv_file s of
                         Some e \<Rightarrow> [error_entry (path_join directory_path f) (str_exn e)]
                       | None \<Rightarrow> [])
                 files)"

subsection \<open>Example inputs\<close>

definition titled_article :: "string \<Rightarrow> element" where
  "titled_article t =
     Element ''PubmedArticle'' None
       [Element ''MedlineCitation'' None
          [Element ''Article'' None [Element ''ArticleTitle'' (Some t) []]]]"

text \<open>An article whose only heading has a \<^verbatim>\<open>DescriptorName\<close> without text.\<close>

definition untexted_descriptor_article :: element where
  "untexted_descriptor_article =
     Element ''PubmedArticle'' None
       [Element ''MedlineCitation'' None
          [Element ''MeshHeadingList'' None
             [Element ''MeshHeading'' None [Element ''DescriptorName'' None []]]]]"

definition article_set :: "element list \<Rightarrow> element" where
  "article_set articles = Element ''PubmedArticleSet'' None articles"

text \<open>
  A directory \<^verbatim>\<open>/two\<close> with a file of three articles and a malformed file, a
  directory \<^verbatim>\<open>/enc\<close> with a file that declares an encoding the parser does not
  know, and a directory \<^verbatim>\<open>/data\<close> with numbered files, an unnumbered one and a text
  file. Nothing can be written under \<^verbatim>\<open>/missing\<close>.
\<close>

definition example_env :: env where
  "example_env =
     \<lparr>listdir = (\<lambda>d.
          if d = ''/two'' then Inr [''pubmed24n0002.xml'', ''pubmed24n0001.xml'']
          else if d = ''/enc'' then Inr [''pubmed24n0001.xml'', ''pubmed24n0002.xml'']
          else if d = ''/data'' then
            Inr [''pubmed24n0002.xml'', ''notes.txt'', ''pubmed24n0000.xml'', ''a.xml'',
                 ''pubmed24n0001.xml'', ''pubmed24n0003.xml'']
          else Inl (OSError ''No such file or directory'')),
      et_parse = (\<lambda>p.
          if p = ''/two/pubmed24n0001.xml'' then
            Inr (article_set [titled_article ''A'', titled_article ''B'', titled_article ''C''])
          else if p = ''/two/pubmed24n0002.xml'' then
            Inl (ParseError ''mismatched tag: line 3, column 2'')
          else if p = ''/enc/pubmed24n0001.xml'' then
            Inr (article_set [titled_article ''D'', titled_article ''E'', titled_article ''F''])
          else if p = ''/enc/pubmed24n0002.xml'' then
            Inl (LookupError ''unknown encoding: x-none'')
          else if p = ''/data/a.xml'' then Inr (article_set [titled_article ''Z''])
          else if p = ''/data/pubmed24n0000.xml'' then Inr (article_set [titled_article ''N''])
          else if p = ''/data/pubmed24n0001.xml'' then
            Inr (article_set [titled_article ''P'', untexted_descriptor_article])
          else if p = ''/data/pubmed24n0002.xml'' then Inr (article_set [titled_article ''Q''])
          else if p = ''/data/pubmed24n0003.xml'' then Inl (OSError ''Permission denied'')
          else Inl (OSError ''No such file or directory'')),
      write_error = (\<lambda>p.
          if startswith p ''/missing/''
          then Some (OSError ''Cannot save file into a non-existent directory: /missing'')
          else None)\<rparr>"

definition example_record :: pubmed_record where
  "example_record =
     \<lparr>Date = Some ''2020-Jan'', Title = Some ''A, B'', Abstract = None,
      MeshHeading = None, Keywords = Some ''x; y''\<rparr>"

definition empty_fs :: fs where
  "empty_fs = \<lparr>tables = Map.empty, texts = Map.empty, console = []\<rparr>"

definition stale_log_fs :: fs where
  "stale_log_fs =
     \<lparr>tables = Map.empty, texts = [''/data/error_log.txt'' \<mapsto> [''old line 1'', ''old line 2'']],
      console = []\<rparr>"

section \<open>Field extraction\<close>

subsection \<open>Joining strings\<close>

lemma join_Cons: "join sep (x # xs) = x @ concat (map (\<lambda>y. sep @ y) xs)"
  by (induction xs arbitrary: x) simp_all

lemma join_eq_spec_join: "join sep xs = spec_join sep xs"
  by (cases xs) (simp_all add: join_Cons)

lemma str_join_no_none:
  "first_none items = None \<Longrightarrow> str_join sep items = Inr (join sep (List.map_filter id items))"
  by (simp add: str_join_def)

subsection \<open>Dates\<close>

lemma extract_date_returns: "\<exists>v. extract_date pub_date = Inr v"
  by (cases pub_date)
     (auto simp: extract_date_def except_AttributeError_def exn_bind_def find_attr_def
        text_attr_def no_attribute_def split: option.splits)

lemma extract_date_no_element: "extract_date None = Inr None"
  by (simp add: extract_date_def except_AttributeError_def exn_bind_def find_attr_def
        no_attribute_def)

lemma extract_date_child_missing:
  "find_child pd ''Year'' = None \<or> find_child pd ''Month'' = None \<Longrightarrow>
   extract_date (Some pd) = Inr None"
  by (auto simp: extract_date_def except_AttributeError_def exn_bind_def find_attr_def
        text_attr_def no_attribute_def split: option.splits)

lemma extract_date_both_children:
  "find_child pd ''Year'' = Some y \<Longrightarrow> find_child pd ''Month'' = Some m \<Longrightarrow>
   extract_date (Some pd) = Inr (Some (py_str (elem_text y) @ ''-'' @ py_str (elem_text m)))"
  by (simp add: extract_date_def except_AttributeError_def exn_bind_def find_attr_def
        text_attr_def)

text \<open>
  C3. The claim: the Date field is "Year-Month" when the publication date has a Year
  and a Month child with text, and absent in every other case, so that no string
  starting with "None-" is produced. The code catches a missing child, not a child
  without text: for a publication date whose Year child is empty and whose Month child
  reads Jan, \<open>extract_date\<close> returns the string "None-Jan".
\<close>

theorem extract_date_untexted_year:
  "extract_date
     (Some (Element ''PubDate'' None
        [Element ''Year'' None [], Element ''Month'' (Some ''Jan'') []])) =
   Inr (Some ''None-Jan'')"
  by (simp add: extract_date_def except_AttributeError_def exn_bind_def find_attr_def
        text_attr_def find_child_def findall_def)

subsection \<open>Keywords\<close>

lemma first_none_texted:
  "first_none (map elem_text (filter (\<lambda>kw. elem_text kw \<noteq> None) ks)) = None"
  by (induction ks) auto

lemma parse_keywords_returns: "\<exists>v. parse_keywords keyword_list = Inr v"
  by (cases keyword_list)
     (simp_all add: parse_keywords_def Let_def exn_bind_def str_join_def first_none_texted
        del: not_None_eq)

lemma texted_nonempty:
  "list_all (\<lambda>kw. elem_text kw \<noteq> Some []) ks \<Longrightarrow>
   List.map_filter id (map elem_text (filter (\<lambda>kw. elem_text kw \<noteq> None) ks)) =
   filter (\<lambda>t. t \<noteq> []) (map text_or_empty ks)"
  by (induction ks) (auto simp: map_filter_simps text_or_empty_def split: option.splits)

lemma texted_empty_iff:
  "map elem_text (filter (\<lambda>kw. elem_text kw \<noteq> None) ks) = [] \<longleftrightarrow>
   List.map_filter id (map elem_text (filter (\<lambda>kw. elem_text kw \<noteq> None) ks)) = []"
  by (induction ks) (auto simp: map_filter_simps)

lemma no_empty_text_text: "no_empty_text e \<Longrightarrow> elem_text e \<noteq> Some []"
  by (cases e) simp

lemma no_empty_text_children:
  "no_empty_text e \<Longrightarrow> list_all (\<lambda>c. elem_text c \<noteq> Some []) (findall e t)"
  by (cases e) (auto simp: findall_def list_all_iff dest: no_empty_text_text)

text \<open>
  C6. For every keyword list of a parsed document, the Keywords field is the non-empty
  keyword texts joined in document order with "; ", the keywords without text left out,
  and it is absent when the list is missing or no keyword has text. The witness is the
  list with one keyword without text and the keyword "gene therapy".
\<close>

theorem parse_keywords_joins_nonempty_texts:
  assumes "pred_option no_empty_text keyword_list"
  shows "parse_keywords keyword_list = Inr (spec_keywords keyword_list)"
proof (cases keyword_list)
  case None
  then show ?thesis by (simp add: parse_keywords_def spec_keywords_def)
next
  case (Some kl)
  let ?ks = "findall kl ''Keyword''"
  let ?items = "map elem_text (filter (\<lambda>kw. elem_text kw \<noteq> None) ?ks)"
  from assms Some have "list_all (\<lambda>c. elem_text c \<noteq> Some []) ?ks"
    by (simp add: no_empty_text_children)
  then have eq: "List.map_filter id ?items = filter (\<lambda>t. t \<noteq> []) (map text_or_empty ?ks)"
    by (rule texted_nonempty)
  show ?thesis
  proof (cases "?items = []")
    case True
    with eq texted_empty_iff [of ?ks] Some show ?thesis
      by (simp add: parse_keywords_def spec_keywords_def Let_def del: not_None_eq)
  next
    case False
    with eq texted_empty_iff [of ?ks] Some show ?thesis
      by (simp add: parse_keywords_def spec_keywords_def Let_def exn_bind_def
            str_join_no_none [OF first_none_texted] join_eq_spec_join del: not_None_eq)
  qed
qed

theorem parse_keywords_joins_nonempty_texts_witness:
  "pred_option no_empty_text
     (Some (Element ''KeywordList'' None
        [Element ''Keyword'' None [], Element ''Keyword'' (Some ''gene therapy'') []])) \<and>
   parse_keywords
     (Some (Element ''KeywordList'' None
        [Element ''Keyword'' None [], Element ''Keyword'' (Some ''gene therapy'') []])) =
   Inr (Some ''gene therapy'')"
proof -
  let ?kl = "Some (Element ''KeywordList'' None
        [Element ''Keyword'' None [], Element ''Keyword'' (Some ''gene therapy'') []])"
  have h: "pred_option no_empty_text ?kl" by simp
  have "spec_keywords ?kl = Some ''gene therapy''"
    by (simp add: spec_keywords_def findall_def text_or_empty_def)
  with h parse_keywords_joins_nonempty_texts [OF h] show ?thesis by simp
qed

subsection \<open>Headings and records\<close>

lemma parse_mesh_headings_raises:
  "parse_mesh_headings mesh_list = Inl e \<Longrightarrow> \<exists>m. e = TypeError m"
  by (auto simp: parse_mesh_headings_def Let_def exn_bind_def str_join_def
        split: option.splits if_splits)

text \<open>
  C2. The claim: no failure while extracting one of the five fields aborts the
  construction of the record; the field degrades to absent and one record is produced.
  Date, Title, Abstract and Keywords never raise, but \<open>parse_mesh_headings\<close> joins
  the descriptor texts without leaving out a missing text, as \<open>parse_keywords\<close>
  does: for an article whose heading has a descriptor name without text the join
  raises, and no record is built.
\<close>

theorem article_record_untexted_descriptor:
  "article_record untexted_descriptor_article =
   Inl (TypeError ''sequence item 0: expected str instance, NoneType found'')"
  by code_simp

lemma article_loop_records:
  "article_loop articles acc = Inr records \<Longrightarrow>
   \<exists>rs. records = acc @ rs \<and> map article_record articles = map Inr rs"
proof (induction articles arbitrary: acc)
  case Nil
  then show ?case by simp
next
  case (Cons a articles)
  then obtain r where r: "article_record a = Inr r"
    and rest: "article_loop articles (acc @ [r]) = Inr records"
    by (auto split: sum.splits)
  from Cons.IH [OF rest] obtain rs where "records = (acc @ [r]) @ rs"
    and "map article_record articles = map Inr rs" by blast
  with r have "records = acc @ (r # rs) \<and> map article_record (a # articles) = map Inr (r # rs)"
    by simp
  then show ?case by blast
qed

lemma article_loop_returns:
  "map article_record articles = map Inr rs \<Longrightarrow> article_loop articles acc = Inr (acc @ rs)"
  by (induction articles arbitrary: acc rs) auto

lemma parse_xml_record_count:
  assumes "et_parse ev file_path = Inr root"
    and "fst (parse_xml ev file_path s) = Inr records"
  shows "length records = length (findall root ''PubmedArticle'') \<and>
         map article_record (findall root ''PubmedArticle'') = map Inr records"
proof -
  from assms have "article_loop (findall root ''PubmedArticle'') [] = Inr records"
    by (simp add: parse_xml_def)
  from article_loop_records [OF this] have m: "map article_record (findall root ''PubmedArticle'') = map Inr records"
    by simp
  from map_eq_imp_length_eq [OF m] m show ?thesis by simp
qed

lemma parse_xml_no_articles:
  "et_parse ev file_path = Inr root \<Longrightarrow> findall root ''PubmedArticle'' = [] \<Longrightarrow>
   parse_xml ev file_path s = (Inr [], s)"
  by (simp add: parse_xml_def)

text \<open>
  C4. The claim: for every well-formed document the number of records equals the number
  of article elements, in document order, and a document without articles yields the
  empty sequence. Whenever \<open>parse_xml\<close> returns, this holds (the two lemmas above);
  but for the well-formed document of two articles whose second has a descriptor name
  without text, \<open>parse_xml\<close> raises and the file yields no record at all.
\<close>

theorem parse_xml_untexted_descriptor:
  "et_parse example_env ''/data/pubmed24n0001.xml'' =
     Inr (article_set [titled_article ''P'', untexted_descriptor_article]) \<and>
   length (findall (article_set [titled_article ''P'', untexted_descriptor_article])
             ''PubmedArticle'') = 2 \<and>
   fst (parse_xml example_env ''/data/pubmed24n0001.xml'' empty_fs) =
     Inl (TypeError ''sequence item 0: expected str instance, NoneType found'')"
  by code_simp

section \<open>Incremental writer\<close>

lemma tables_print [simp]: "tables (print line s) = tables s"
  by (simp add: print_def)

lemma texts_print [simp]: "texts (print line s) = texts s"
  by (simp add: print_def)

lemma csv_rows_DataFrame:
  "records \<noteq> [] \<Longrightarrow>
   csv_rows (DataFrame records) header =
   (if header then [header_row] else []) @ map data_row records"
  by (simp add: csv_rows_def DataFrame_def header_row_def data_row_def)

lemma save_records_unwritable:
  "write_error ev output_file = Some e \<Longrightarrow> save_records_to_csv ev records output_file s = Inl e"
  by (simp add: save_records_to_csv_def to_csv_def Let_def exn_bind_def)

lemma save_records_writable:
  "write_error ev output_file = None \<Longrightarrow> records \<noteq> [] \<Longrightarrow>
   \<exists>s'. save_records_to_csv ev records output_file s = Inr s' \<and>
        tables s' =
          (tables s)(output_file \<mapsto>
             (case tables s output_file of
                None \<Rightarrow> header_row # map data_row records
              | Some old \<Rightarrow> old @ map data_row records)) \<and>
        texts s' = texts s"
  by (auto simp: save_records_to_csv_def isfile_def to_csv_def Let_def exn_bind_def
        csv_rows_DataFrame)

lemma texts_save_records:
  "save_records_to_csv ev records output_file s = Inr s' \<Longrightarrow> texts s' = texts s"
  by (auto simp: save_records_to_csv_def to_csv_def Let_def exn_bind_def
        split: option.splits if_splits)

text \<open>
  C7. For every call of the writer with a non-empty record sequence: if the destination
  does not exist it is created with the header row (Date, Title, Abstract, MeshHeading,
  Keywords) followed by the data rows; if it exists the data rows are appended and no
  header is written, so that a second call adds data rows only and the table keeps the
  single header of its creation. A destination that cannot be opened for writing makes
  the call raise and changes nothing.
\<close>

theorem save_records_to_csv_header_once:
  assumes "records \<noteq> []" and "later \<noteq> []"
  shows "map_sum id tables (save_records_to_csv ev records output_file s) =
           (case write_error ev output_file of
              Some e \<Rightarrow> Inl e
            | None \<Rightarrow>
                Inr ((tables s)(output_file \<mapsto>
                       (case tables s output_file of
                          None \<Rightarrow> header_row # map data_row records
                        | Some old \<Rightarrow> old @ map data_row records)))) \<and>
         map_sum id (\<lambda>t. tables t output_file)
           (exn_bind (save_records_to_csv ev records output_file s)
              (save_records_to_csv ev later output_file)) =
           (case write_error ev output_file of
              Some e \<Rightarrow> Inl e
            | None \<Rightarrow>
                Inr (Some ((case tables s output_file of None \<Rightarrow> [header_row] | Some old \<Rightarrow> old)
                           @ map data_row records @ map data_row later)))"
proof (cases "write_error ev output_file")
  case (Some e)
  then show ?thesis by (simp add: save_records_unwritable exn_bind_def)
next
  case None
  from save_records_writable [OF None assms(1), of s] obtain s1 where
    s1: "save_records_to_csv ev records output_file s = Inr s1"
    and t1: "tables s1 =
          (tables s)(output_file \<mapsto>
             (case tables s output_file of
                None \<Rightarrow> header_row # map data_row records
              | Some old \<Rightarrow> old @ map data_row records))"
    by blast
  from save_records_writable [OF None assms(2), of s1] obtain s2 where
    s2: "save_records_to_csv ev later output_file s1 = Inr s2"
    and t2: "tables s2 =
          (tables s1)(output_file \<mapsto>
             (case tables s1 output_file of
                None \<Rightarrow> header_row # map data_row later
              | Some old \<Rightarrow> old @ map data_row later))"
    by blast
  from None s1 t1 s2 t2 show ?thesis
    by (simp add: exn_bind_def split: option.splits)
qed

theorem save_records_to_csv_header_once_witness:
  "[example_record] \<noteq> [] \<and>
   tables (projr (save_records_to_csv example_env [example_record] ''/out.csv'' empty_fs))
     ''/out.csv'' =
     Some [[''Date'', ''Title'', ''Abstract'', ''MeshHeading'', ''Keywords''],
           [''2020-Jan'', ''A, B'', [], [], ''x; y'']] \<and>
   tables (projr (exn_bind (save_records_to_csv example_env [example_record] ''/out.csv'' empty_fs)
                    (save_records_to_csv example_env [example_record] ''/out.csv'')))
     ''/out.csv'' =
     Some [[''Date'', ''Title'', ''Abstract'', ''MeshHeading'', ''Keywords''],
           [''2020-Jan'', ''A, B'', [], [], ''x; y''],
           [''2020-Jan'', ''A, B'', [], [], ''x; y'']] \<and>
   save_records_to_csv example_env [example_record] ''/missing/out.csv'' empty_fs =
     Inl (OSError ''Cannot save file into a non-existent directory: /missing'')"
proof -
  have h: "[example_record] \<noteq> []" by simp
  have v1: "tables (projr (save_records_to_csv example_env [example_record] ''/out.csv'' empty_fs))
     ''/out.csv'' =
     Some [[''Date'', ''Title'', ''Abstract'', ''MeshHeading'', ''Keywords''],
           [''2020-Jan'', ''A, B'', [], [], ''x; y'']]"
    by code_simp
  have v2: "tables (projr (exn_bind (save_records_to_csv example_env [example_record] ''/out.csv'' empty_fs)
                    (save_records_to_csv example_env [example_record] ''/out.csv'')))
     ''/out.csv'' =
     Some [[''Date'', ''Title'', ''Abstract'', ''MeshHeading'', ''Keywords''],
           [''2020-Jan'', ''A, B'', [], [], ''x; y''],
           [''2020-Jan'', ''A, B'', [], [], ''x; y'']]"
    by code_simp
  have v3: "save_records_to_csv example_env [example_record] ''/missing/out.csv'' empty_fs =
     Inl (OSError ''Cannot save file into a non-existent directory: /missing'')"
    by (rule save_records_unwritable) (simp add: example_env_def)
  from save_records_to_csv_header_once [OF h h, of example_env "''/out.csv''" empty_fs] h v1 v2 v3
  show ?thesis by simp
qed

section \<open>Directory walker\<close>

subsection \<open>One file\<close>

lemma parse_xml_result_state: "fst (parse_xml ev file_path s) = fst (parse_xml ev file_path s')"
  by (simp add: parse_xml_def split: sum.splits exn.splits)

lemma tables_parse_xml [simp]: "tables (snd (parse_xml ev file_path s)) = tables s"
  by (simp add: parse_xml_def split: sum.splits exn.splits)

lemma texts_parse_xml [simp]: "texts (snd (parse_xml ev file_path s)) = texts s"
  by (simp add: parse_xml_def split: sum.splits exn.splits)

text \<open>
  C10, amended. For every file path on which the parser raises \<^verbatim>\<open>ParseError\<close>,
  \<open>parse_xml\<close> returns the empty record list and does not raise: the walker's
  handler is not reached, so the file adds no entry to the error log and leaves every
  table (and text file) as it was.
\<close>

theorem parse_xml_malformed:
  assumes "et_parse ev file_path = Inl (ParseError m)"
    and "path_join directory_path filename = file_path"
  shows "parse_xml ev file_path s =
           (Inr [], print (''Error parsing '' @ file_path @ '': '' @ m) s) \<and>
         fst (process_file ev directory_path output_csv_file filename error_log s) = error_log \<and>
         tables (snd (process_file ev directory_path output_csv_file filename error_log s)) =
           tables s \<and>
         texts (snd (process_file ev directory_path output_csv_file filename error_log s)) =
           texts s"
  using assms by (simp add: parse_xml_def process_file_def Let_def exn_bind_def)

theorem parse_xml_malformed_witness:
  "et_parse example_env ''/two/pubmed24n0002.xml'' =
     Inl (ParseError ''mismatched tag: line 3, column 2'') \<and>
   path_join ''/two'' ''pubmed24n0002.xml'' = ''/two/pubmed24n0002.xml'' \<and>
   fst (parse_xml example_env ''/two/pubmed24n0002.xml'' empty_fs) = Inr [] \<and>
   process_file example_env ''/two'' ''/out.csv'' ''pubmed24n0002.xml'' [] empty_fs =
     ([], \<lparr>tables = Map.empty, texts = Map.empty,
           console = [''Processing file: /two/pubmed24n0002.xml'',
                      ''Error parsing /two/pubmed24n0002.xml: mismatched tag: line 3, column 2'']\<rparr>)"
proof -
  have h1: "et_parse example_env ''/two/pubmed24n0002.xml'' =
              Inl (ParseError ''mismatched tag: line 3, column 2'')"
    by (simp add: example_env_def)
  have h2: "path_join ''/two'' ''pubmed24n0002.xml'' = ''/two/pubmed24n0002.xml''"
    by (simp add: path_join_def endswith_def)
  have p: "process_file example_env ''/two'' ''/out.csv'' ''pubmed24n0002.xml'' [] empty_fs =
     ([], \<lparr>tables = Map.empty, texts = Map.empty,
           console = [''Processing file: /two/pubmed24n0002.xml'',
                      ''Error parsing /two/pubmed24n0002.xml: mismatched tag: line 3, column 2'']\<rparr>)"
    by (simp add: process_file_def h2 parse_xml_def h1 print_def empty_fs_def exn_bind_def)
  from parse_xml_malformed [OF h1 h2, of empty_fs "''/out.csv''" "[]"] h1 h2 p
  show ?thesis by simp
qed

text \<open>
  The claim C10 as stated speaks of every file whose contents fail XML parsing. A file
  that declares an encoding the parser does not know fails with \<^verbatim>\<open>LookupError\<close>,
  which \<open>parse_xml\<close> does not catch: it raises, the walker's handler is reached and
  the file gets an entry in the error log.
\<close>

theorem parse_xml_unknown_encoding_counterexample:
  "et_parse example_env ''/enc/pubmed24n0002.xml'' = Inl (LookupError ''unknown encoding: x-none'') \<and>
   fst (parse_xml example_env ''/enc/pubmed24n0002.xml'' empty_fs) =
     Inl (LookupError ''unknown encoding: x-none'') \<and>
   fst (process_file example_env ''/enc'' ''/out.csv'' ''pubmed24n0002.xml'' [] empty_fs) =
     [''Error processing /enc/pubmed24n0002.xml: unknown encoding: x-none'']"
  by code_simp

subsection \<open>The loop over the files\<close>

lemma walk_started:
  "walk ev d out sn names True error_log s =
   Inr (process_files ev d out (filter (\<lambda>f. endswith f ''.xml'') names) error_log s)"
  by (induction names arbitrary: error_log s)
     (simp_all add: exn_bind_def split: prod.splits)

lemma walk_waiting:
  "walk ev d out (Some n) names False error_log s =
   Inr (process_files ev d out
          (dropWhile (\<lambda>f. \<not> startswith f (''pubmed24n'' @ format_04d n))
             (filter (\<lambda>f. endswith f ''.xml'') names)) error_log s)"
  by (induction names arbitrary: error_log s)
     (simp_all add: exn_bind_def marker_prefix_def walk_started split: prod.splits)

lemma walk_retained:
  "walk ev d out sn (sort names) (if truthy sn then False else True) [] s =
   Inr (process_files ev d out (retained sn names) [] s)"
  by (cases sn) (simp_all add: truthy_def retained_def xml_names_def walk_started walk_waiting)

lemma process_directory_retained:
  "listdir ev d = Inr names \<Longrightarrow>
   process_directory ev d out sn s =
   (case process_files ev d out (retained sn names) [] s of
      (error_log, s') \<Rightarrow> write_error_log ev d error_log s')"
  by (simp add: process_directory_def Let_def exn_bind_def walk_retained split: prod.splits)

text \<open>
  C9. When the start-marker is the integer 0, \<open>process_directory\<close> skips nothing and
  behaves exactly as without a start-marker: the marker is tested for truthiness, so the
  flag starts true and every XML file of the sorted listing is processed; no file with
  the prefix \<^verbatim>\<open>pubmed24n0000\<close> is waited for.
\<close>

theorem process_directory_marker_zero:
  "process_directory ev d out (Some 0) s = process_directory ev d out None s \<and>
   process_directory ev d out (Some 0) s =
     exn_bind (listdir ev d) (\<lambda>names.
       case process_files ev d out (xml_names names) [] s of
         (error_log, s') \<Rightarrow> write_error_log ev d error_log s')"
  by (simp add: process_directory_def Let_def exn_bind_def truthy_def walk_started xml_names_def
        split: sum.splits prod.splits)

subsection \<open>The start-marker\<close>

lemma xml_names_sorted: "sorted (xml_names names)"
  by (simp add: xml_names_def sorted_wrt_filter)

lemma xml_names_all: "list_all (\<lambda>f. endswith f ''.xml'') (xml_names names)"
  by (simp add: xml_names_def list_all_iff)

lemma xml_names_suffix:
  assumes "xml_names names = skipped @ kept"
  shows "xml_names kept = kept"
proof -
  from xml_names_sorted [of names] assms have "sorted kept"
    by (simp add: sorted_append)
  then have "sort kept = kept" by (rule sorted_sort_id)
  moreover from xml_names_all [of names] assms have "list_all (\<lambda>f. endswith f ''.xml'') kept"
    by simp
  ultimately show ?thesis by (simp add: xml_names_def list_all_iff)
qed

lemma retained_from_first:
  assumes "xml_names names = skipped @ first # rest"
    and "n \<noteq> 0"
    and "startswith first (''pubmed24n'' @ format_04d n)"
    and "list_all (\<lambda>f. \<not> startswith f (''pubmed24n'' @ format_04d n)) skipped"
  shows "retained (Some n) names = first # rest"
  using assms by (simp add: retained_def list_all_iff dropWhile_append2)

lemma parse_xml_listdir: "parse_xml (ev\<lparr>listdir := l\<rparr>) file_path s = parse_xml ev file_path s"
  by (simp add: parse_xml_def)

lemma to_csv_listdir:
  "to_csv (ev\<lparr>listdir := l\<rparr>) df path append_mode header s = to_csv ev df path append_mode header s"
  by (simp add: to_csv_def)

lemma save_records_listdir:
  "save_records_to_csv (ev\<lparr>listdir := l\<rparr>) records out s = save_records_to_csv ev records out s"
  by (simp add: save_records_to_csv_def to_csv_listdir cong: if_cong)

lemma process_file_listdir:
  "process_file (ev\<lparr>listdir := l\<rparr>) d out f error_log s = process_file ev d out f error_log s"
  by (simp add: process_file_def parse_xml_listdir save_records_listdir cong: if_cong)

lemma process_files_listdir:
  "process_files (ev\<lparr>listdir := l\<rparr>) d out fs error_log s = process_files ev d out fs error_log s"
  by (induction fs arbitrary: error_log s) (simp_all add: process_file_listdir split: prod.splits)

lemma write_error_log_listdir:
  "write_error_log (ev\<lparr>listdir := l\<rparr>) d error_log s = write_error_log ev d error_log s"
  by (simp add: write_error_log_def)

text \<open>
  C5, amended. When a start-marker other than 0 is given and the Nth file of the sorted
  XML files is the first whose name starts with the marker's prefix, the files before it
  are skipped entirely: the run processes exactly the files from the Nth on, and equals
  the run without a marker on a directory that holds only those files. When no
  start-marker is given, or the marker is 0, all XML files are processed from the first.
\<close>

theorem process_directory_start_marker:
  assumes "listdir ev d = Inr names"
    and "xml_names names = skipped @ first # rest"
    and "n \<noteq> 0"
    and "startswith first (''pubmed24n'' @ format_04d n)"
    and "list_all (\<lambda>f. \<not> startswith f (''pubmed24n'' @ format_04d n)) skipped"
  shows "process_directory ev d out (Some n) s =
           (case process_files ev d out (first # rest) [] s of
              (error_log, s') \<Rightarrow> write_error_log ev d error_log s') \<and>
         process_directory ev d out (Some n) s =
           process_directory (ev\<lparr>listdir := (listdir ev)(d := Inr (first # rest))\<rparr>) d out None s \<and>
         process_directory ev d out None s =
           (case process_files ev d out (xml_names names) [] s of
              (error_log, s') \<Rightarrow> write_error_log ev d error_log s') \<and>
         process_directory ev d out (Some 0) s =
           (case process_files ev d out (xml_names names) [] s of
              (error_log, s') \<Rightarrow> write_error_log ev d error_log s')"
proof -
  let ?ev = "ev\<lparr>listdir := (listdir ev)(d := Inr (first # rest))\<rparr>"
  have r: "retained (Some n) names = first # rest"
    using assms(2-5) by (rule retained_from_first)
  have k: "retained None (first # rest) = first # rest"
    using xml_names_suffix [OF assms(2)] by (simp add: retained_def)
  have l: "listdir ?ev d = Inr (first # rest)" by simp
  show ?thesis
    using process_directory_retained [OF assms(1), of out "Some n" s]
      process_directory_retained [OF assms(1), of out None s]
      process_directory_retained [OF assms(1), of out "Some 0" s]
      process_directory_retained [OF l, of out None s] r k
    by (simp add: retained_def process_files_listdir write_error_log_listdir)
qed

theorem process_directory_start_marker_witness:
  "listdir example_env ''/data'' =
     Inr [''pubmed24n0002.xml'', ''notes.txt'', ''pubmed24n0000.xml'', ''a.xml'',
          ''pubmed24n0001.xml'', ''pubmed24n0003.xml''] \<and>
   xml_names [''pubmed24n0002.xml'', ''notes.txt'', ''pubmed24n0000.xml'', ''a.xml'',
              ''pubmed24n0001.xml'', ''pubmed24n0003.xml''] =
     [''a.xml'', ''pubmed24n0000.xml'', ''pubmed24n0001.xml''] @
     ''pubmed24n0002.xml'' # [''pubmed24n0003.xml''] \<and>
   startswith ''pubmed24n0002.xml'' (''pubmed24n'' @ format_04d 2) \<and>
   list_all (\<lambda>f. \<not> startswith f (''pubmed24n'' @ format_04d 2))
     [''a.xml'', ''pubmed24n0000.xml'', ''pubmed24n0001.xml''] \<and>
   process_directory example_env ''/data'' ''/out.csv'' (Some 2) empty_fs =
     (case process_files example_env ''/data'' ''/out.csv''
             [''pubmed24n0002.xml'', ''pubmed24n0003.xml''] [] empty_fs of
        (error_log, s') \<Rightarrow> write_error_log example_env ''/data'' error_log s') \<and>
   tables (projr (process_directory example_env ''/data'' ''/out.csv'' (Some 2) empty_fs))
     ''/out.csv'' =
     Some [[''Date'', ''Title'', ''Abstract'', ''MeshHeading'', ''Keywords''],
           [[], ''Q'', [], [], []]] \<and>
   texts (projr (process_directory example_env ''/data'' ''/out.csv'' (Some 2) empty_fs))
     ''/data/error_log.txt'' =
     Some [''Error processing /data/pubmed24n0003.xml: Permission denied'']"
proof -
  have h1: "listdir example_env ''/data'' =
     Inr [''pubmed24n0002.xml'', ''notes.txt'', ''pubmed24n0000.xml'', ''a.xml'',
          ''pubmed24n0001.xml'', ''pubmed24n0003.xml'']"
    by (simp add: example_env_def)
  have h2: "xml_names [''pubmed24n0002.xml'', ''notes.txt'', ''pubmed24n0000.xml'', ''a.xml'',
              ''pubmed24n0001.xml'', ''pubmed24n0003.xml''] =
     [''a.xml'', ''pubmed24n0000.xml'', ''pubmed24n0001.xml''] @
     ''pubmed24n0002.xml'' # [''pubmed24n0003.xml'']"
    by code_simp
  have h3: "(2::int) \<noteq> 0" by simp
  have h4: "startswith ''pubmed24n0002.xml'' (''pubmed24n'' @ format_04d 2)"
    by code_simp
  have h5: "list_all (\<lambda>f. \<not> startswith f (''pubmed24n'' @ format_04d 2))
     [''a.xml'', ''pubmed24n0000.xml'', ''pubmed24n0001.xml'']"
    by code_simp
  have v1: "tables (projr (process_directory example_env ''/data'' ''/out.csv'' (Some 2) empty_fs))
     ''/out.csv'' =
     Some [[''Date'', ''Title'', ''Abstract'', ''MeshHeading'', ''Keywords''],
           [[], ''Q'', [], [], []]]"
    by code_simp
  have v2: "texts (projr (process_directory example_env ''/data'' ''/out.csv'' (Some 2) empty_fs))
     ''/data/error_log.txt'' =
     Some [''Error processing /data/pubmed24n0003.xml: Permission denied'']"
    by code_simp
  from process_directory_start_marker [OF h1 h2 h3 h4 h5, of "''/out.csv''" empty_fs]
    h1 h2 h4 h5 v1 v2
  show ?thesis by simp
qed

text \<open>
  The claim C5 as stated fails for the marker 0: in the example directory the marker's
  prefix \<^verbatim>\<open>pubmed24n0000\<close> matches the second XML file, yet the first file,
  \<^verbatim>\<open>a.xml\<close>, is processed and its record is written to the table.
\<close>

theorem process_directory_marker_zero_counterexample:
  "xml_names [''pubmed24n0002.xml'', ''notes.txt'', ''pubmed24n0000.xml'', ''a.xml'',
              ''pubmed24n0001.xml'', ''pubmed24n0003.xml''] =
     [''a.xml'', ''pubmed24n0000.xml'', ''pubmed24n0001.xml'', ''pubmed24n0002.xml'',
      ''pubmed24n0003.xml''] \<and>
   \<not> startswith ''a.xml'' (''pubmed24n'' @ format_04d 0) \<and>
   startswith ''pubmed24n0000.xml'' (''pubmed24n'' @ format_04d 0) \<and>
   tables (projr (process_directory example_env ''/data'' ''/out.csv'' (Some 0) empty_fs))
     ''/out.csv'' =
     Some [[''Date'', ''Title'', ''Abstract'', ''MeshHeading'', ''Keywords''],
           [[], ''Z'', [], [], []], [[], ''N'', [], [], []], [[], ''Q'', [], [], []]] \<and>
   hd (console (projr (process_directory example_env ''/data'' ''/out.csv'' (Some 0) empty_fs))) =
     ''Processing file: /data/a.xml''"
  by code_simp

subsection \<open>The error log\<close>

lemma process_file_texts [simp]:
  "texts (snd (process_file ev d out f error_log s)) = texts s"
proof -
  let ?s1 = "print (''Processing file: '' @ path_join d f) s"
  obtain r s2 where p: "parse_xml ev (path_join d f) ?s1 = (r, s2)"
    by (cases "parse_xml ev (path_join d f) ?s1")
  have "texts (snd (r, s2)) = texts s" unfolding p [symmetric] by simp
  then have t2: "texts s2 = texts s" by simp
  show ?thesis
  proof (cases r)
    case (Inl e)
    with p t2 show ?thesis by (simp add: process_file_def Let_def exn_bind_def)
  next
    case (Inr records)
    show ?thesis
    proof (cases "save_records_to_csv ev records out s2")
      case (Inl e)
      with Inr p t2 show ?thesis by (simp add: process_file_def Let_def exn_bind_def)
    next
      case saved: (Inr s3)
      from texts_save_records [OF saved] t2 have "texts s3 = texts s" by simp
      with saved Inr p t2 show ?thesis by (simp add: process_file_def Let_def exn_bind_def)
    qed
  qed
qed

lemma process_file_error_log:
  "fst (process_file ev d out f error_log s) = error_log @ error_entries ev d out s0 [f]"
proof -
  let ?s1 = "print (''Processing file: '' @ path_join d f) s"
  obtain r s2 where p: "parse_xml ev (path_join d f) ?s1 = (r, s2)"
    by (cases "parse_xml ev (path_join d f) ?s1")
  from parse_xml_result_state [of ev "path_join d f" s0 ?s1] p
  have r: "fst (parse_xml ev (path_join d f) s0) = r" by simp
  show ?thesis
  proof (cases r)
    case (Inl e)
    with p r show ?thesis
      by (simp add: process_file_def Let_def exn_bind_def error_entries_def file_failure_def
            error_entry_def)
  next
    case (Inr records)
    show ?thesis
    proof (cases "records = []")
      case True
      with Inr p r show ?thesis
        by (simp add: process_file_def Let_def exn_bind_def error_entries_def file_failure_def)
    next
      case False
      show ?thesis
      proof (cases "write_error ev out")
        case None
        from save_records_writable [OF None False, of s2] obtain s3 where
          "save_records_to_csv ev records out s2 = Inr s3" by blast
        with None False Inr p r show ?thesis
          by (simp add: process_file_def Let_def exn_bind_def error_entries_def file_failure_def)
      next
        case (Some e)
        from save_records_unwritable [OF Some, of records s2] Some False Inr p r show ?thesis
          by (simp add: process_file_def Let_def exn_bind_def error_entries_def file_failure_def
                error_entry_def)
      qed
    qed
  qed
qed

lemma error_entries_Cons:
  "error_entries ev d out s0 (f # fs) = error_entries ev d out s0 [f] @ error_entries ev d out s0 fs"
  by (simp add: error_entries_def)

lemma process_files_texts [simp]:
  "texts (snd (process_files ev d out fs error_log s)) = texts s"
proof (induction fs arbitrary: error_log s)
  case Nil
  show ?case by simp
next
  case (Cons f fs)
  obtain l1 s1 where p: "process_file ev d out f error_log s = (l1, s1)"
    by (cases "process_file ev d out f error_log s")
  have "texts (snd (l1, s1)) = texts s" unfolding p [symmetric] by simp
  then have "texts s1 = texts s" by simp
  with Cons.IH [of l1 s1] p show ?case by simp
qed

lemma process_files_error_log:
  "fst (process_files ev d out fs error_log s) = error_log @ error_entries ev d out s0 fs"
proof (induction fs arbitrary: error_log s)
  case Nil
  show ?case by (simp add: error_entries_def)
next
  case (Cons f fs)
  obtain l1 s1 where p: "process_file ev d out f error_log s = (l1, s1)"
    by (cases "process_file ev d out f error_log s")
  from process_file_error_log [of ev d out f error_log s s0] p
  have "l1 = error_log @ error_entries ev d out s0 [f]" by simp
  with Cons.IH [of l1 s1] p error_entries_Cons [of ev d out s0 f fs] show ?case by simp
qed

lemma texts_write_error_log:
  "map_sum id texts (write_error_log ev d error_log s) =
   (if error_log = [] then Inr (texts s)
    else case write_error ev (path_join d ''error_log.txt'') of
           Some e \<Rightarrow> Inl e
         | None \<Rightarrow> Inr ((texts s)(path_join d ''error_log.txt'' \<mapsto> error_log)))"
  by (simp add: write_error_log_def Let_def split: option.splits)

text \<open>
  C8. After the walk, the sidecar file \<^verbatim>\<open>error_log.txt\<close> inside the source directory
  is written if and only if the walk collected at least one error entry; it then holds
  exactly the collected entries, one line "Error processing <path>: <message>" for each
  retained file on which parsing, extraction or the saving of its records raised, and
  replaces whatever the file held before. Without entries no text file changes. (When
  there are entries and the sidecar cannot be opened for writing, the exception of the
  write ends the run.)
\<close>

theorem error_log_written_iff_entries:
  assumes "listdir ev d = Inr names"
  shows "\<exists>error_log s1.
           walk ev d out sn (sort names) (if truthy sn then False else True) [] s =
             Inr (error_log, s1) \<and>
           error_log = error_entries ev d out s (retained sn names) \<and>
           texts s1 = texts s \<and>
           process_directory ev d out sn s = write_error_log ev d error_log s1 \<and>
           map_sum id texts (write_error_log ev d error_log s1) =
             (if error_log = [] then Inr (texts s)
              else case write_error ev (path_join d ''error_log.txt'') of
                     Some e \<Rightarrow> Inl e
                   | None \<Rightarrow> Inr ((texts s)(path_join d ''error_log.txt'' \<mapsto> error_log)))"
proof -
  obtain error_log s1 where p: "process_files ev d out (retained sn names) [] s = (error_log, s1)"
    by (cases "process_files ev d out (retained sn names) [] s")
  from process_files_error_log [of ev d out "retained sn names" "[]" s s] p
  have e: "error_log = error_entries ev d out s (retained sn names)" by simp
  have "texts (snd (error_log, s1)) = texts s"
    unfolding p [symmetric] by (simp only: process_files_texts)
  then have t: "texts s1 = texts s" by simp
  have w: "walk ev d out sn (sort names) (if truthy sn then False else True) [] s = Inr (error_log, s1)"
    using p by (simp add: walk_retained)
  have d: "process_directory ev d out sn s = write_error_log ev d error_log s1"
    using process_directory_retained [OF assms, of out sn s] p by simp
  have x: "map_sum id texts (write_error_log ev d error_log s1) =
             (if error_log = [] then Inr (texts s)
              else case write_error ev (path_join d ''error_log.txt'') of
                     Some e \<Rightarrow> Inl e
                   | None \<Rightarrow> Inr ((texts s)(path_join d ''error_log.txt'' \<mapsto> error_log)))"
    unfolding t [symmetric] by (rule texts_write_error_log)
  from w e t d x show ?thesis by blast
qed

theorem error_log_written_iff_entries_witness:
  "listdir example_env ''/data'' =
     Inr [''pubmed24n0002.xml'', ''notes.txt'', ''pubmed24n0000.xml'', ''a.xml'',
          ''pubmed24n0001.xml'', ''pubmed24n0003.xml''] \<and>
   texts stale_log_fs ''/data/error_log.txt'' = Some [''old line 1'', ''old line 2''] \<and>
   texts (projr (process_directory example_env ''/data'' ''/out.csv'' None stale_log_fs))
     ''/data/error_log.txt'' =
     Some [''Error processing /data/pubmed24n0001.xml: sequence item 0: expected str instance, NoneType found'',
           ''Error processing /data/pubmed24n0003.xml: Permission denied''] \<and>
   texts (projr (process_directory example_env ''/data'' ''/missing/out.csv'' (Some 2) stale_log_fs))
     ''/data/error_log.txt'' =
     Some [''Error processing /data/pubmed24n0002.xml: Cannot save file into a non-existent directory: /missing'',
           ''Error processing /data/pubmed24n0003.xml: Permission denied''] \<and>
   texts (projr (process_directory example_env ''/two'' ''/out.csv'' None stale_log_fs))
     ''/two/error_log.txt'' = None"
proof -
  have h: "listdir example_env ''/data'' =
     Inr [''pubmed24n0002.xml'', ''notes.txt'', ''pubmed24n0000.xml'', ''a.xml'',
          ''pubmed24n0001.xml'', ''pubmed24n0003.xml'']"
    by (simp add: example_env_def)
  have v0: "texts stale_log_fs ''/data/error_log.txt'' = Some [''old line 1'', ''old line 2'']"
    by (simp add: stale_log_fs_def)
  have v1: "texts (projr (process_directory example_env ''/data'' ''/out.csv'' None stale_log_fs))
     ''/data/error_log.txt'' =
     Some [''Error processing /data/pubmed24n0001.xml: sequence item 0: expected str instance, NoneType found'',
           ''Error processing /data/pubmed24n0003.xml: Permission denied'']"
    by code_simp
  have v2: "texts (projr (process_directory example_env ''/data'' ''/missing/out.csv'' (Some 2) stale_log_fs))
     ''/data/error_log.txt'' =
     Some [''Error processing /data/pubmed24n0002.xml: Cannot save file into a non-existent directory: /missing'',
           ''Error processing /data/pubmed24n0003.xml: Permission denied'']"
    by code_simp
  have v3: "texts (projr (process_directory example_env ''/two'' ''/out.csv'' None stale_log_fs))
     ''/two/error_log.txt'' = None"
    by code_simp
  from error_log_written_iff_entries [OF h, of "''/out.csv''" None stale_log_fs] h v0 v1 v2 v3
  show ?thesis by simp
qed

section \<open>A run over two files\<close>

lemma process_file_parse_raises:
  assumes "et_parse ev (path_join d f) = Inl e"
  shows "fst (process_file ev d out f error_log s) =
           (case e of
              ParseError m \<Rightarrow> error_log
            | _ \<Rightarrow> error_log @ [error_entry (path_join d f) (str_exn e)]) \<and>
         tables (snd (process_file ev d out f error_log s)) = tables s"
  using assms
  by (cases e) (simp_all add: parse_xml_def process_file_def Let_def exn_bind_def error_entry_def)

text \<open>
  C1, amended. For a run without start-marker over a directory whose XML files are two,
  the first yielding 3 records and the second one on which the parser raises, with a
  destination that does not exist yet and can be written: the output table afterwards
  holds the header and exactly 3 data rows. When the parser raised \<^verbatim>\<open>ParseError\<close>
  (XML that is not well formed) the failure is only printed: the file produces no error
  entry and no sidecar error file is written. When it raised any other exception (an
  unknown encoding, an unreadable file) the sidecar error file is written and holds
  exactly one line, which names the second file.
\<close>

theorem two_files_second_malformed:
  assumes "listdir ev d = Inr names"
    and "xml_names names = [first, second]"
    and "fst (parse_xml ev (path_join d first) s) = Inr records"
    and "length records = 3"
    and "et_parse ev (path_join d second) = Inl e"
    and "tables s out = None"
    and "write_error ev out = None"
    and "write_error ev (path_join d ''error_log.txt'') = None"
  shows "\<exists>s'. process_directory ev d out None s = Inr s' \<and>
              tables s' out = Some (header_row # map data_row records) \<and>
              length (map data_row records) = 3 \<and>
              texts s' =
                (case e of
                   ParseError m \<Rightarrow> texts s
                 | _ \<Rightarrow> (texts s)(path_join d ''error_log.txt'' \<mapsto>
                                 [error_entry (path_join d second) (str_exn e)]))"
proof -
  let ?p1 = "path_join d first"
  let ?s1 = "print (''Processing file: '' @ ?p1) s"
  let ?entry = "error_entry (path_join d second) (str_exn e)"
  from assms(4) have ne: "records \<noteq> []" by auto
  obtain r1 t1 where p1: "parse_xml ev ?p1 ?s1 = (r1, t1)"
    by (cases "parse_xml ev ?p1 ?s1")
  from parse_xml_result_state [of ev ?p1 s ?s1] assms(3) p1 have r1: "r1 = Inr records" by simp
  have "tables (snd (r1, t1)) = tables ?s1" unfolding p1 [symmetric] by simp
  then have tt1: "tables t1 = tables s" by simp
  from save_records_writable [OF assms(7) ne, of t1] obtain u where
    sv: "save_records_to_csv ev records out t1 = Inr u"
    and tu0: "tables u =
          (tables t1)(out \<mapsto>
             (case tables t1 out of
                None \<Rightarrow> header_row # map data_row records
              | Some old \<Rightarrow> old @ map data_row records))"
    by blast
  have f1: "process_file ev d out first [] s = ([], u)"
    using p1 r1 ne sv by (simp add: process_file_def Let_def exn_bind_def)
  have tu: "tables u out = Some (header_row # map data_row records)"
    using tu0 tt1 assms(6) by simp
  obtain l2 u2 where f2: "process_file ev d out second [] u = (l2, u2)"
    by (cases "process_file ev d out second [] u")
  from process_file_parse_raises [OF assms(5), of out "[]" u] f2
  have l2: "l2 = (case e of ParseError m \<Rightarrow> [] | _ \<Rightarrow> [?entry])"
    and tu2: "tables u2 = tables u" by (simp_all cong: exn.case_cong)
  have pf: "process_files ev d out [first, second] [] s = (l2, u2)"
    using f1 f2 by simp
  have "texts (snd (l2, u2)) = texts s"
    unfolding pf [symmetric] by (simp only: process_files_texts)
  then have tx: "texts u2 = texts s" by simp
  have pd: "process_directory ev d out None s = write_error_log ev d l2 u2"
    using process_directory_retained [OF assms(1), of out None s] assms(2) pf
    by (simp add: retained_def)
  show ?thesis
  proof (cases "\<exists>m. e = ParseError m")
    case True
    then obtain m where "e = ParseError m" by blast
    with l2 pd tu tu2 tx assms(4) show ?thesis
      by (simp add: write_error_log_def)
  next
    case False
    with l2 have "l2 = [?entry]" by (cases e) simp_all
    with pd assms(8) have
      "process_directory ev d out None s =
         Inr (print (''Error log saved to '' @ path_join d ''error_log.txt'')
                (u2\<lparr>texts := (texts u2)(path_join d ''error_log.txt'' \<mapsto> [?entry])\<rparr>))"
      by (simp add: write_error_log_def Let_def)
    with False tu tu2 tx assms(4) show ?thesis
      by (cases e) simp_all
  qed
qed

theorem two_files_second_malformed_witness:
  "listdir example_env ''/two'' = Inr [''pubmed24n0002.xml'', ''pubmed24n0001.xml''] \<and>
   xml_names [''pubmed24n0002.xml'', ''pubmed24n0001.xml''] =
     [''pubmed24n0001.xml'', ''pubmed24n0002.xml''] \<and>
   length (projr (fst (parse_xml example_env ''/two/pubmed24n0001.xml'' empty_fs))) = 3 \<and>
   et_parse example_env ''/two/pubmed24n0002.xml'' =
     Inl (ParseError ''mismatched tag: line 3, column 2'') \<and>
   write_error example_env ''/two/output_file.csv'' = None \<and>
   write_error example_env ''/two/error_log.txt'' = None \<and>
   tables (projr (process_directory example_env ''/two'' ''/two/output_file.csv'' None empty_fs))
     ''/two/output_file.csv'' =
     Some [[''Date'', ''Title'', ''Abstract'', ''MeshHeading'', ''Keywords''],
           [[], ''A'', [], [], []], [[], ''B'', [], [], []], [[], ''C'', [], [], []]] \<and>
   texts (projr (process_directory example_env ''/two'' ''/two/output_file.csv'' None empty_fs))
     ''/two/error_log.txt'' = None \<and>
   texts (projr (process_directory example_env ''/enc'' ''/enc/output_file.csv'' None empty_fs))
     ''/enc/error_log.txt'' =
     Some [''Error processing /enc/pubmed24n0002.xml: unknown encoding: x-none'']"
proof -
  let ?rs = "projr (fst (parse_xml example_env ''/two/pubmed24n0001.xml'' empty_fs))"
  have h1: "listdir example_env ''/two'' = Inr [''pubmed24n0002.xml'', ''pubmed24n0001.xml'']"
    by (simp add: example_env_def)
  have h2: "xml_names [''pubmed24n0002.xml'', ''pubmed24n0001.xml''] =
     [''pubmed24n0001.xml'', ''pubmed24n0002.xml'']"
    by code_simp
  have j1: "path_join ''/two'' ''pubmed24n0001.xml'' = ''/two/pubmed24n0001.xml''"
    by code_simp
  have j2: "path_join ''/two'' ''pubmed24n0002.xml'' = ''/two/pubmed24n0002.xml''"
    by code_simp
  have j3: "path_join ''/two'' ''error_log.txt'' = ''/two/error_log.txt''"
    by code_simp
  have isr: "\<not> isl (fst (parse_xml example_env ''/two/pubmed24n0001.xml'' empty_fs))"
    by code_simp
  then have h3: "fst (parse_xml example_env (path_join ''/two'' ''pubmed24n0001.xml'') empty_fs) = Inr ?rs"
    by (simp add: j1)
  have h4: "length ?rs = 3" by code_simp
  have h5: "et_parse example_env (path_join ''/two'' ''pubmed24n0002.xml'') =
     Inl (ParseError ''mismatched tag: line 3, column 2'')"
    by (simp add: j2 example_env_def)
  have h6: "tables empty_fs ''/two/output_file.csv'' = None" by (simp add: empty_fs_def)
  have h7: "write_error example_env ''/two/output_file.csv'' = None"
    by (simp add: example_env_def)
  have h8: "write_error example_env (path_join ''/two'' ''error_log.txt'') = None"
    by (simp add: j3 example_env_def)
  have v1: "tables (projr (process_directory example_env ''/two'' ''/two/output_file.csv'' None empty_fs))
     ''/two/output_file.csv'' =
     Some [[''Date'', ''Title'', ''Abstract'', ''MeshHeading'', ''Keywords''],
           [[], ''A'', [], [], []], [[], ''B'', [], [], []], [[], ''C'', [], [], []]]"
    by code_simp
  have v2: "texts (projr (process_directory example_env ''/two'' ''/two/output_file.csv'' None empty_fs))
     ''/two/error_log.txt'' = None"
    by code_simp
  have v3: "texts (projr (process_directory example_env ''/enc'' ''/enc/output_file.csv'' None empty_fs))
     ''/enc/error_log.txt'' =
     Some [''Error processing /enc/pubmed24n0002.xml: unknown encoding: x-none'']"
    by code_simp
  from two_files_second_malformed [OF h1 h2 h3 h4 h5 h6 h7 h8] h1 h2 h4 h5 h7 h8 j2 j3 v1 v2 v3
  show ?thesis by simp
qed

text \<open>
  The claim C1 as stated expects one line for the second file in the sidecar error
  file. In the example directory the first file yields 3 records and the second is not
  well formed, so that the parser raises \<^verbatim>\<open>ParseError\<close>; the run returns, the parse
  failure is printed on the console, and no sidecar file exists afterwards.
\<close>

theorem two_files_second_malformed_counterexample:
  "length (projr (fst (parse_xml example_env ''/two/pubmed24n0001.xml'' empty_fs))) = 3 \<and>
   et_parse example_env ''/two/pubmed24n0002.xml'' =
     Inl (ParseError ''mismatched tag: line 3, column 2'') \<and>
   \<not> isl (process_directory example_env ''/two'' ''/two/output_file.csv'' None empty_fs) \<and>
   texts (projr (process_directory example_env ''/two'' ''/two/output_file.csv'' None empty_fs))
     ''/two/error_log.txt'' = None \<and>
   console (projr (process_directory example_env ''/two'' ''/two/output_file.csv'' None empty_fs)) =
     [''Processing file: /two/pubmed24n0001.xml'',
      ''Data successfully saved to /two/output_file.csv'',
      ''Processing file: /two/pubmed24n0002.xml'',
      ''Error parsing /two/pubmed24n0002.xml: mismatched tag: line 3, column 2'']"
  by code_simp

end
